theory Spec2Isabelle
  imports Main
begin

section \<open>Data model of the PtyManager\<close>

text \<open>
  The backend's PtyManager (main_process/PtyManager) keeps a JavaScript \<open>Map\<close> from session
  ids to \<open>PtyTuple\<close>s and a counter from which the ids are drawn. Everything the manager
  calls but does not implement (the logger, the PtyConnector, the Pty objects, Electron's
  WebContents and BrowserWindow) is outside the class: a call that changes the outside is
  recorded, in order, in a trace of events; a call that only reads the outside takes its
  answer from an environment \<open>Env\<close> given to the operation.

  Objects are modelled by their identity: a Pty and a WebContents are natural numbers.
  TypeScript's \<open>number\<close> is \<open>int\<close> wherever the code uses it as an integer (ids, window
  ids, columns, rows, sizes). The id counter is the one number the code computes with: it
  is a double, and \<open>js_increment\<close> below is what \<open>++\<close> does to it.

  A call into the outside returns to its caller before anything else happens: a Pty fires
  its events from the event loop, not from inside \<open>destroy\<close>, \<open>write\<close> or \<open>resize\<close>. Of
  the outside calls, \<open>spawn\<close> is the one whose failure the model follows.
\<close>

type_synonym Pty = nat
type_synonym WebContents = nat

text \<open>\<open>EnvironmentMap\<close> is a plain object with string values: its properties in insertion order.\<close>

type_synonym EnvironmentMap = "(string \<times> string) list"

record PtyTuple =
  windowId :: int
  ptyTerm :: Pty
  outputBufferSize :: int
  outputPaused :: bool

text \<open>\<open>PtyOptions\<close>: the property \<open>cwd\<close> is optional; \<open>None\<close> is the property left unset.\<close>

record PtyOptions =
  opt_name :: string
  opt_cols :: int
  opt_rows :: int
  opt_env :: EnvironmentMap
  opt_cwd :: "string option"

record BufferSizeChange =
  totalBufferSize :: int
  availableDelta :: int

text \<open>
  The envelopes the manager builds, named by their \<open>MessageType\<close>:
  \<open>{type: PTY_OUTPUT, id, data}\<close>, \<open>{type: PTY_CLOSE, id}\<close>,
  \<open>{type: PTY_INPUT_BUFFER_SIZE_CHANGE, id, totalBufferSize, availableDelta}\<close> and
  \<open>{type: PTY_CREATED, id}\<close>.
\<close>

datatype Message =
    PTY_OUTPUT int string
  | PTY_CLOSE int
  | PTY_INPUT_BUFFER_SIZE_CHANGE int int int
  | PTY_CREATED int

text \<open>The request envelopes the manager receives.\<close>

record CreatePtyRequestMessage =
  create_command :: string
  create_args :: "string list"
  create_env :: EnvironmentMap
  create_columns :: int
  create_rows :: int
  create_fromPtyId :: "int option"

record PtyInput =
  input_id :: int
  input_data :: string

record PtyOutputBufferSize =
  buffer_id :: int
  buffer_size :: int

record PtyResize =
  resize_id :: int
  resize_columns :: int
  resize_rows :: int

record PtyCloseRequest =
  close_id :: int

text \<open>
  The calls that change the outside world. \<open>logger.debug\<close> is recorded with its message
  text (the objects printed after it are left out).
\<close>

datatype Event =
    Logger_debug string
  | Logger_warn string
  | Connector_spawn string "string list" PtyOptions
  | Pty_write Pty string
  | Pty_permittedDataSize Pty int
  | Pty_resize Pty int int
  | Pty_destroy Pty
  | Sender_send WebContents Message

text \<open>
  The three closures that createPty registers on a Pty, with the variables each one
  captures: \<open>sender\<close> and \<open>ptyId\<close>, and for the exit handler \<open>ptyTerm\<close> as well.
\<close>

datatype Listener =
    OnData WebContents int
  | OnExit WebContents int Pty
  | OnAvailableWriteBufferSizeChange WebContents int

text \<open>
  The answers of the outside world during one call:
  \<open>spawn\<close> is \<open>PtyConnector.spawn\<close> (\<open>Inl\<close> the message of the error it raises, \<open>Inr\<close> the
  new Pty), \<open>getCwd\<close> is \<open>Pty.getCwd\<close> (\<open>None\<close> for undefined or null),
  \<open>isDestroyed\<close> is \<open>WebContents.isDestroyed\<close>, and \<open>fromWebContents\<close> is the id of the
  window \<open>BrowserWindow.fromWebContents\<close> returns (\<open>None\<close> when it returns null).

  \<open>global_lodash\<close> is about the identifier \<open>_\<close> in \<open>_.clone(env)\<close>. The PtyManager module
  neither imports nor declares \<open>_\<close> (its imports are Config, Logger, WindowMessages, Pty,
  PtyConnector, PtyConnectorFactory and electron), so the identifier is looked up in the
  global scope of the process that runs the module. \<open>global_lodash\<close> is true when the host
  has bound the global \<open>_\<close> to lodash, and false when it has not: the module as it stands,
  run by itself, is the case false, in which evaluating \<open>_\<close> raises a ReferenceError.
\<close>

record Env =
  global_lodash :: bool
  spawn :: "string \<Rightarrow> string list \<Rightarrow> PtyOptions \<Rightarrow> string + Pty"
  getCwd :: "Pty \<Rightarrow> string option"
  isDestroyed :: "WebContents \<Rightarrow> bool"
  fromWebContents :: "WebContents \<Rightarrow> int option"

text \<open>
  The state: the two fields of the class, the listeners registered on the Pty objects so
  far, and the trace.
\<close>

record State =
  ptyMap :: "(int \<times> PtyTuple) list"
  ptyCounter :: int
  listeners :: "(Pty \<times> Listener) list"
  trace :: "Event list"

datatype Error =
    ReferenceError
  | SpawnError string
  | TypeError

section \<open>JavaScript containers and truthiness\<close>

text \<open>
  A JavaScript \<open>Map\<close> (and the properties of an object) as an association list in
  insertion order: \<open>set\<close> overwrites the value of a key that is present, in its place, and
  appends a new key; \<open>delete\<close> removes the key; \<open>keys\<close> lists the keys in order.
\<close>

definition Map_get :: "('k \<times> 'v) list \<Rightarrow> 'k \<Rightarrow> 'v option" where
  "Map_get m k = map_of m k"

fun Map_set :: "'k \<Rightarrow> 'v \<Rightarrow> ('k \<times> 'v) list \<Rightarrow> ('k \<times> 'v) list" where
  "Map_set k v [] = [(k, v)]"
| "Map_set k v (p # ps) = (if fst p = k then (k, v) # ps else p # Map_set k v ps)"

definition Map_delete :: "'k \<Rightarrow> ('k \<times> 'v) list \<Rightarrow> ('k \<times> 'v) list" where
  "Map_delete k m = filter (\<lambda>p. fst p \<noteq> k) m"

definition Map_keys :: "('k \<times> 'v) list \<Rightarrow> 'k list" where
  "Map_keys m = map fst m"

text \<open>\<open>if (x)\<close> on an optional number: undefined and 0 are falsy.\<close>

fun truthy_number :: "int option \<Rightarrow> bool" where
  "truthy_number None = False"
| "truthy_number (Some n) = (n \<noteq> 0)"

text \<open>\<open>if (x)\<close> on an optional string: undefined, null and the empty string are falsy.\<close>

fun truthy_string :: "string option \<Rightarrow> bool" where
  "truthy_string None = False"
| "truthy_string (Some str) = (str \<noteq> [])"

section \<open>The operations of PtyManager\<close>

definition emit :: "Event \<Rightarrow> State \<Rightarrow> State" where
  "emit e s = s\<lparr>trace := trace s @ [e]\<rparr>"

text \<open>
  \<open>this.ptyCounter++\<close> on a double that holds an integer. From \<open>-2^53\<close> to below \<open>2^53\<close>
  (9007199254740992) the sum is exact. At \<open>2^53\<close> the sum \<open>2^53 + 1\<close> is no double and is
  rounded back to \<open>2^53\<close>: the counter of a manager, which starts at 0 and changes by this
  statement alone, stays there. For completeness, the other integers a double can hold:
  up to \<open>2^54\<close> in size they are even, the sum lies half way between two doubles and goes
  to the one whose significand is even, which is \<open>c\<close> itself when 4 divides it and
  \<open>c + 2\<close> otherwise; beyond, the sum is rounded back to \<open>c\<close>.
\<close>

definition js_increment :: "int \<Rightarrow> int" where
  "js_increment c =
    (if - 9007199254740992 \<le> c \<and> c < 9007199254740992 then c + 1
     else if \<bar>c\<bar> < 18014398509481984 \<and> c mod 4 = 2 then c + 2
     else c)"

text \<open>The fields as the class initialises them: an empty map and the counter 0.\<close>

definition PtyManager_new :: State where
  "PtyManager_new = \<lparr>ptyMap = [], ptyCounter = 0, listeners = [], trace = []\<rparr>"

text \<open>
  \<open>createPty\<close>. The result is the id, or the error raised, together with the state the
  call leaves behind. \<open>fromPty.ptyTerm\<close> is always an object, hence truthy. The three
  places that can raise are the evaluation of \<open>_\<close> in the first statement that does
  anything, \<open>_.clone(env)\<close>, which comes before everything else; \<open>spawn\<close>; and the
  property read \<open>BrowserWindow.fromWebContents(sender).id\<close> on null, which comes after the
  increment of the counter. With lodash bound, \<open>_.clone(env)\<close> is a copy of the caller's
  object, so that the assignment of TERM does not change the caller's.
\<close>

definition createPty ::
  "Env \<Rightarrow> WebContents \<Rightarrow> string \<Rightarrow> string list \<Rightarrow> EnvironmentMap \<Rightarrow> int \<Rightarrow> int \<Rightarrow> int option
     \<Rightarrow> State \<Rightarrow> (Error + int) \<times> State" where
  "createPty E sender file args env cols rows fromPtyId s =
    (if \<not> global_lodash E then (Inl ReferenceError, s) else
     let ptyEnv = Map_set ''TERM'' ''xterm'' env;
         ptyOptions0 = \<lparr>opt_name = ''xterm'', opt_cols = cols, opt_rows = rows,
                        opt_env = ptyEnv, opt_cwd = None\<rparr>;
         (ptyOptions, s1) =
           (case fromPtyId of
              None \<Rightarrow> (ptyOptions0, s)
            | Some n \<Rightarrow>
                if \<not> truthy_number (Some n) then (ptyOptions0, s)
                else
                  (let sa = emit (Logger_debug ''Got fromPtyId ...'') s in
                   case Map_get (ptyMap sa) n of
                     None \<Rightarrow> (ptyOptions0, sa)
                   | Some fromPty \<Rightarrow>
                       (let sb = emit (Logger_debug ''fromPty was found: '') sa;
                            cwd = getCwd E (ptyTerm fromPty);
                            sc = emit (Logger_debug ''fromPty CWD: '') sb
                        in if truthy_string cwd
                           then (ptyOptions0\<lparr>opt_cwd := cwd\<rparr>,
                                 emit (Logger_debug ''CWD of fromPty is: '') sc)
                           else (ptyOptions0, sc))));
         s2 = emit (Connector_spawn file args ptyOptions) s1
     in case spawn E file args ptyOptions of
          Inl e \<Rightarrow> (Inl (SpawnError e), s2)
        | Inr p \<Rightarrow>
            (let s3 = s2\<lparr>ptyCounter := js_increment (ptyCounter s2)\<rparr>;
                 ptyId = ptyCounter s3
             in case fromWebContents E sender of
                  None \<Rightarrow> (Inl TypeError, s3)
                | Some w \<Rightarrow>
                    (let ptyTup = \<lparr>windowId = w, ptyTerm = p,
                                    outputBufferSize = 0, outputPaused = True\<rparr>;
                         s4 = s3\<lparr>ptyMap := Map_set ptyId ptyTup (ptyMap s3)\<rparr>;
                         s5 = s4\<lparr>listeners := listeners s4 @
                                [(p, OnData sender ptyId),
                                 (p, OnExit sender ptyId p),
                                 (p, OnAvailableWriteBufferSizeChange sender ptyId)]\<rparr>
                     in (Inr ptyId, s5))))"

text \<open>\<open>closePty\<close>: nothing in it raises, so it returns the state alone.\<close>

definition closePty :: "int \<Rightarrow> State \<Rightarrow> State" where
  "closePty i s =
    (case Map_get (ptyMap s) i of
       None \<Rightarrow> s
     | Some ptyTerminalTuple \<Rightarrow>
         (let s1 = emit (Pty_destroy (ptyTerm ptyTerminalTuple)) s
          in s1\<lparr>ptyMap := Map_delete i (ptyMap s1)\<rparr>))"

text \<open>
  \<open>cleanUpPtyWindow\<close>: the loop runs over the keys copied before it starts. Reading
  \<open>tup.windowId\<close> of a key that is gone by then would raise a TypeError.
\<close>

fun cleanUpPtyWindow_loop :: "int \<Rightarrow> int list \<Rightarrow> State \<Rightarrow> (Error + unit) \<times> State" where
  "cleanUpPtyWindow_loop w [] s = (Inr (), s)"
| "cleanUpPtyWindow_loop w (key # keys) s =
    (case Map_get (ptyMap s) key of
       None \<Rightarrow> (Inl TypeError, s)
     | Some tup \<Rightarrow>
         if windowId tup = w then cleanUpPtyWindow_loop w keys (closePty key s)
         else cleanUpPtyWindow_loop w keys s)"

definition cleanUpPtyWindow :: "int \<Rightarrow> State \<Rightarrow> (Error + unit) \<times> State" where
  "cleanUpPtyWindow w s = cleanUpPtyWindow_loop w (Map_keys (ptyMap s)) s"

definition handlePtyCreate ::
  "Env \<Rightarrow> WebContents \<Rightarrow> CreatePtyRequestMessage \<Rightarrow> State \<Rightarrow> (Error + Message) \<times> State" where
  "handlePtyCreate E sender msg s =
    (case createPty E sender (create_command msg) (create_args msg) (create_env msg)
            (create_columns msg) (create_rows msg) (create_fromPtyId msg) s of
       (Inl e, s') \<Rightarrow> (Inl e, s')
     | (Inr i, s') \<Rightarrow> (Inr (PTY_CREATED i), s'))"

definition handlePtyInput :: "PtyInput \<Rightarrow> State \<Rightarrow> State" where
  "handlePtyInput msg s =
    (case Map_get (ptyMap s) (input_id msg) of
       None \<Rightarrow> emit (Logger_warn
         ''handlePtyInput() WARNING: Input arrived for a terminal which doesn't exist.'') s
     | Some ptyTerminalTuple \<Rightarrow> emit (Pty_write (ptyTerm ptyTerminalTuple) (input_data msg)) s)"

definition handlePtyOutputBufferSize :: "PtyOutputBufferSize \<Rightarrow> State \<Rightarrow> State" where
  "handlePtyOutputBufferSize msg s =
    (case Map_get (ptyMap s) (buffer_id msg) of
       None \<Rightarrow> emit (Logger_warn
         ''handlePtyOutputBufferSize() WARNING: Input arrived for a terminal which doesn't exist.'') s
     | Some ptyTerminalTuple \<Rightarrow>
         emit (Pty_permittedDataSize (ptyTerm ptyTerminalTuple) (buffer_size msg)) s)"

definition handlePtyResize :: "PtyResize \<Rightarrow> State \<Rightarrow> State" where
  "handlePtyResize msg s =
    (case Map_get (ptyMap s) (resize_id msg) of
       None \<Rightarrow> emit (Logger_warn
         ''handlePtyResize() WARNING: Input arrived for a terminal which doesn't exist.'') s
     | Some ptyTerminalTuple \<Rightarrow>
         emit (Pty_resize (ptyTerm ptyTerminalTuple) (resize_columns msg) (resize_rows msg)) s)"

definition handlePtyCloseRequest :: "PtyCloseRequest \<Rightarrow> State \<Rightarrow> State" where
  "handlePtyCloseRequest msg s =
    (case Map_get (ptyMap s) (close_id msg) of
       None \<Rightarrow> emit (Logger_warn
         ''handlePtyCloseRequest() WARNING: Input arrived for a terminal which doesn't exist.'') s
     | Some ptyTerminalTuple \<Rightarrow> closePty (close_id msg) s)"

section \<open>The callbacks registered by createPty\<close>

text \<open>The body of the callback given to \<open>ptyTerm.onData\<close>.\<close>

definition onData_callback :: "Env \<Rightarrow> WebContents \<Rightarrow> int \<Rightarrow> string \<Rightarrow> State \<Rightarrow> State" where
  "onData_callback E sender ptyId chunk s =
    (if \<not> isDestroyed E sender then emit (Sender_send sender (PTY_OUTPUT ptyId chunk)) s
     else s)"

text \<open>The body of the callback given to \<open>ptyTerm.onExit\<close>.\<close>

definition onExit_callback :: "Env \<Rightarrow> WebContents \<Rightarrow> int \<Rightarrow> Pty \<Rightarrow> State \<Rightarrow> State" where
  "onExit_callback E sender ptyId p s =
    (let s1 = emit (Logger_debug ''pty process exited.'') s;
         s2 = (if \<not> isDestroyed E sender then emit (Sender_send sender (PTY_CLOSE ptyId)) s1
               else s1);
         s3 = emit (Pty_destroy p) s2
     in s3\<lparr>ptyMap := Map_delete ptyId (ptyMap s3)\<rparr>)"

text \<open>The body of the callback given to \<open>ptyTerm.onAvailableWriteBufferSizeChange\<close>.\<close>

definition onAvailableWriteBufferSizeChange_callback ::
  "WebContents \<Rightarrow> int \<Rightarrow> BufferSizeChange \<Rightarrow> State \<Rightarrow> State" where
  "onAvailableWriteBufferSizeChange_callback sender ptyId bufferSizeChange s =
    emit (Sender_send sender (PTY_INPUT_BUFFER_SIZE_CHANGE ptyId
            (totalBufferSize bufferSizeChange) (availableDelta bufferSizeChange))) s"

datatype PtyEvent =
    Data string
  | Exit
  | AvailableWriteBufferSizeChange BufferSizeChange

definition call_listener :: "Env \<Rightarrow> Listener \<Rightarrow> PtyEvent \<Rightarrow> State \<Rightarrow> State" where
  "call_listener E l ev s =
    (case l of
       OnData sender ptyId \<Rightarrow>
         (case ev of Data chunk \<Rightarrow> onData_callback E sender ptyId chunk s | _ \<Rightarrow> s)
     | OnExit sender ptyId p \<Rightarrow>
         (case ev of Exit \<Rightarrow> onExit_callback E sender ptyId p s | _ \<Rightarrow> s)
     | OnAvailableWriteBufferSizeChange sender ptyId \<Rightarrow>
         (case ev of
            AvailableWriteBufferSizeChange b \<Rightarrow>
              onAvailableWriteBufferSizeChange_callback sender ptyId b s
          | _ \<Rightarrow> s))"

text \<open>
  Modelled from the spec: the Pty class (pty/Pty) that delivers the events is not among the
  sources. Section 4.1 of the specification gives its event contract: \<open>onData\<close> fires for
  every chunk of output, \<open>onExit\<close> when the process ends, and
  \<open>onAvailableWriteBufferSizeChange\<close> when the write capacity changes. A Pty that fires
  an event calls the callbacks registered on it, in the order of their registration.
\<close>

definition fire :: "Env \<Rightarrow> Pty \<Rightarrow> PtyEvent \<Rightarrow> State \<Rightarrow> State" where
  "fire E p ev s =
     fold (\<lambda>ql st. if fst ql = p then call_listener E (snd ql) ev st else st) (listeners s) s"

text \<open>A Pty delivering a sequence of chunks, each under the environment of its moment.\<close>

fun deliver :: "Pty \<Rightarrow> (Env \<times> string) list \<Rightarrow> State \<Rightarrow> State" where
  "deliver p [] s = s"
| "deliver p (Ec # rest) s = deliver p rest (fire (fst Ec) p (Data (snd Ec)) s)"

definition listeners_of :: "Pty \<Rightarrow> State \<Rightarrow> Listener list" where
  "listeners_of p s = map snd (filter (\<lambda>ql. fst ql = p) (listeners s))"

section \<open>TerminalWindow\<close>

text \<open>
  \<open>TerminalWindow.closePty\<close> and \<open>TerminalWindow.cleanUpPtyWindow\<close> run the same
  statements on the session map that the module imports from Main.
\<close>

definition TerminalWindow_closePty :: "int \<Rightarrow> State \<Rightarrow> State" where
  "TerminalWindow_closePty i s =
    (case Map_get (ptyMap s) i of
       None \<Rightarrow> s
     | Some ptyTerminalTuple \<Rightarrow>
         (let s1 = emit (Pty_destroy (ptyTerm ptyTerminalTuple)) s
          in s1\<lparr>ptyMap := Map_delete i (ptyMap s1)\<rparr>))"

fun TerminalWindow_cleanUpPtyWindow_loop ::
  "int \<Rightarrow> int list \<Rightarrow> State \<Rightarrow> (Error + unit) \<times> State" where
  "TerminalWindow_cleanUpPtyWindow_loop w [] s = (Inr (), s)"
| "TerminalWindow_cleanUpPtyWindow_loop w (key # keys) s =
    (case Map_get (ptyMap s) key of
       None \<Rightarrow> (Inl TypeError, s)
     | Some tup \<Rightarrow>
         if windowId tup = w
         then TerminalWindow_cleanUpPtyWindow_loop w keys (TerminalWindow_closePty key s)
         else TerminalWindow_cleanUpPtyWindow_loop w keys s)"

definition TerminalWindow_cleanUpPtyWindow :: "int \<Rightarrow> State \<Rightarrow> (Error + unit) \<times> State" where
  "TerminalWindow_cleanUpPtyWindow w s =
     TerminalWindow_cleanUpPtyWindow_loop w (Map_keys (ptyMap s)) s"

section \<open>Runs of the manager\<close>

text \<open>
  Whatever can happen to one manager: a call of one of its public methods, or a Pty firing
  an event. \<open>exec\<close> returns the session id when the step is a creation that succeeds.
\<close>

datatype Call =
    CreatePty WebContents string "string list" EnvironmentMap int int "int option"
  | ClosePty int
  | CleanUpPtyWindow int
  | HandlePtyCreate WebContents CreatePtyRequestMessage
  | HandlePtyInput PtyInput
  | HandlePtyOutputBufferSize PtyOutputBufferSize
  | HandlePtyResize PtyResize
  | HandlePtyCloseRequest PtyCloseRequest
  | Fire Pty PtyEvent

fun exec :: "Env \<Rightarrow> Call \<Rightarrow> State \<Rightarrow> int option \<times> State" where
  "exec E (CreatePty sender file args env cols rows fromPtyId) s =
    (case createPty E sender file args env cols rows fromPtyId s of
       (Inl e, s') \<Rightarrow> (None, s')
     | (Inr i, s') \<Rightarrow> (Some i, s'))"
| "exec E (ClosePty i) s = (None, closePty i s)"
| "exec E (CleanUpPtyWindow w) s = (None, snd (cleanUpPtyWindow w s))"
| "exec E (HandlePtyCreate sender msg) s =
    (case handlePtyCreate E sender msg s of
       (Inr (PTY_CREATED i), s') \<Rightarrow> (Some i, s')
     | (r, s') \<Rightarrow> (None, s'))"
| "exec E (HandlePtyInput msg) s = (None, handlePtyInput msg s)"
| "exec E (HandlePtyOutputBufferSize msg) s = (None, handlePtyOutputBufferSize msg s)"
| "exec E (HandlePtyResize msg) s = (None, handlePtyResize msg s)"
| "exec E (HandlePtyCloseRequest msg) s = (None, handlePtyCloseRequest msg s)"
| "exec E (Fire p ev) s = (None, fire E p ev s)"

text \<open>A run: the ids of the successful creations, in order, and the final state.\<close>

fun run :: "(Env \<times> Call) list \<Rightarrow> State \<Rightarrow> int list \<times> State" where
  "run [] s = ([], s)"
| "run (Ec # rest) s =
    (case exec (fst Ec) (snd Ec) s of
       (r, s') \<Rightarrow>
         (case run rest s' of
            (ids, s'') \<Rightarrow> ((case r of None \<Rightarrow> ids | Some i \<Rightarrow> i # ids), s'')))"

section \<open>Reading the trace and the map\<close>

fun spawn_calls :: "Event list \<Rightarrow> (string \<times> string list \<times> PtyOptions) list" where
  "spawn_calls [] = []"
| "spawn_calls (Connector_spawn file args opts # es) = (file, args, opts) # spawn_calls es"
| "spawn_calls (e # es) = spawn_calls es"

fun destroy_calls :: "Event list \<Rightarrow> Pty list" where
  "destroy_calls [] = []"
| "destroy_calls (Pty_destroy p # es) = p # destroy_calls es"
| "destroy_calls (e # es) = destroy_calls es"

text \<open>
  What a JavaScript \<open>Map\<close> filled by this class guarantees: no key occurs twice, and every
  key is an id the counter has handed out; and the counter is where \<open>js_increment\<close>
  keeps it.
\<close>

definition wellformed :: "State \<Rightarrow> bool" where
  "wellformed s \<longleftrightarrow>
     distinct (Map_keys (ptyMap s)) \<and> 0 \<le> ptyCounter s \<and> ptyCounter s \<le> 9007199254740992 \<and>
     (\<forall>k \<in> set (Map_keys (ptyMap s)). 0 < k \<and> k \<le> ptyCounter s)"

section \<open>Concrete inputs\<close>

text \<open>
  Three hosts that have bound \<open>_\<close> to lodash (one whose connector cannot start the
  command, one whose sender is destroyed), and the module by itself, with \<open>_\<close> unbound.
\<close>

definition example_env :: Env where
  "example_env = \<lparr>global_lodash = True, spawn = (\<lambda>file args opts. Inr 5),
                   getCwd = (\<lambda>p. Some ''/home/user''),
                   isDestroyed = (\<lambda>c. False), fromWebContents = (\<lambda>c. Some 3)\<rparr>"

definition failing_env :: Env where
  "failing_env = \<lparr>global_lodash = True, spawn = (\<lambda>file args opts. Inl ''ENOENT''),
                   getCwd = (\<lambda>p. None),
                   isDestroyed = (\<lambda>c. False), fromWebContents = (\<lambda>c. Some 3)\<rparr>"

definition destroyed_env :: Env where
  "destroyed_env = \<lparr>global_lodash = True, spawn = (\<lambda>file args opts. Inr 5),
                   getCwd = (\<lambda>p. None),
                   isDestroyed = (\<lambda>c. True), fromWebContents = (\<lambda>c. Some 3)\<rparr>"


definition example_tuple :: "int \<Rightarrow> Pty \<Rightarrow> PtyTuple" where
  "example_tuple w p = \<lparr>windowId = w, ptyTerm = p, outputBufferSize = 0, outputPaused = True\<rparr>"

definition example_state :: State where
  "example_state =
     \<lparr>ptyMap = [(1, example_tuple 3 10), (2, example_tuple 4 11), (3, example_tuple 3 12)],
      ptyCounter = 3, listeners = [], trace = []\<rparr>"

text \<open>One session, with the three callbacks createPty registers for it on its Pty.\<close>

definition session_state :: State where
  "session_state =
     \<lparr>ptyMap = [(1, example_tuple 3 5)], ptyCounter = 1,
      listeners = [(5, OnData 7 1), (5, OnExit 7 1 5),
                   (5, OnAvailableWriteBufferSizeChange 7 1)],
      trace = []\<rparr>"

text \<open>A manager whose counter has arrived at \<open>2^53\<close>.\<close>

definition limit_state :: State where
  "limit_state = \<lparr>ptyMap = [], ptyCounter = 9007199254740992, listeners = [], trace = []\<rparr>"

definition example_request :: CreatePtyRequestMessage where
  "example_request = \<lparr>create_command = ''/bin/sh'', create_args = [], create_env = [],
      create_columns = 80, create_rows = 24, create_fromPtyId = None\<rparr>"

definition example_calls :: "(Env \<times> Call) list" where
  "example_calls =
     [(example_env, CreatePty 7 ''/bin/sh'' [] [] 80 24 None),
      (failing_env, CreatePty 7 ''/bin/nosuch'' [] [] 80 24 None),
      (example_env, ClosePty 1),
      (example_env, HandlePtyCreate 7 example_request)]"

section \<open>Facts about the containers and the trace\<close>

lemma spawn_calls_append: "spawn_calls (xs @ ys) = spawn_calls xs @ spawn_calls ys"
  by (induction xs rule: spawn_calls.induct) simp_all

lemma destroy_calls_append: "destroy_calls (xs @ ys) = destroy_calls xs @ destroy_calls ys"
  by (induction xs rule: destroy_calls.induct) simp_all

lemma Map_get_append_hit:
  "k \<notin> fst ` set pre \<Longrightarrow> Map_get (pre @ (k, t) # rest) k = Some t"
  by (induction pre) (auto simp: Map_get_def)

lemma filter_no_hit: "k \<notin> fst ` set xs \<Longrightarrow> filter (\<lambda>p. fst p \<noteq> k) xs = xs"
  by (induction xs) auto

lemma Map_delete_append_hit:
  "k \<notin> fst ` set pre \<Longrightarrow> k \<notin> fst ` set rest \<Longrightarrow>
     Map_delete k (pre @ (k, t) # rest) = pre @ rest"
  by (simp add: Map_delete_def filter_no_hit)

lemma Map_get_delete_same: "Map_get (Map_delete k m) k = None"
  by (induction m) (auto simp: Map_get_def Map_delete_def)

lemma Map_get_delete_other: "j \<noteq> k \<Longrightarrow> Map_get (Map_delete k m) j = Map_get m j"
  by (induction m) (auto simp: Map_get_def Map_delete_def)

lemma Map_get_set: "Map_get (Map_set k v m) j = (if j = k then Some v else Map_get m j)"
  by (induction m) (auto simp: Map_get_def)

lemma Map_set_fresh: "k \<notin> fst ` set m \<Longrightarrow> Map_set k v m = m @ [(k, v)]"
  by (induction m) auto

lemma Map_get_filter_window:
  "distinct (map fst m) \<Longrightarrow>
     Map_get (filter (\<lambda>p. windowId (snd p) \<noteq> w) m) k =
       (case Map_get m k of None \<Rightarrow> None
        | Some tup \<Rightarrow> if windowId tup \<noteq> w then Some tup else None)"
proof (induction m)
  case Nil
  then show ?case by (simp add: Map_get_def)
next
  case (Cons a m)
  have "fst a \<notin> fst ` set m" using Cons.prems by simp
  then have "map_of (filter (\<lambda>p. windowId (snd p) \<noteq> w) m) (fst a) = None"
    by (auto simp: map_of_eq_None_iff)
  with Cons show ?case
    by (cases a) (auto simp: Map_get_def split: option.splits)
qed

section \<open>The unbound identifier\<close>

text \<open>
  In a process where nothing has bound the global \<open>_\<close>, every call of createPty raises the
  ReferenceError of its first statement and leaves the state as it was: no call of spawn,
  no id, no session, no callback.
\<close>

lemma createPty_no_lodash:
  "\<not> global_lodash E \<Longrightarrow>
     createPty E sender file args env cols rows fromPtyId s = (Inl ReferenceError, s)"
  by (simp add: createPty_def)

text \<open>Where lodash is bound, every call of createPty makes exactly one call of spawn.\<close>

lemma createPty_spawn_calls:
  "global_lodash E \<Longrightarrow>
     \<exists>opts. spawn_calls (trace (snd (createPty E sender file args env cols rows fromPtyId s)))
            = spawn_calls (trace s) @ [(file, args, opts)]"
  by (simp add: createPty_def Let_def emit_def spawn_calls_append
        split: option.splits sum.splits prod.splits)

section \<open>Spawn failure\<close>

text \<open>
  Claim C1. When createPty calls \<open>PtyConnector.spawn\<close> (the trace shows the call, with
  the options \<open>opts\<close>) and spawn raises, createPty raises that error to its caller, the id
  counter is unchanged, the session map is exactly as before, and no callback has been
  registered. This holds in every environment: a call in which \<open>_\<close> is unbound does not
  get as far as spawn.
\<close>

theorem createPty_spawn_error:
  assumes "createPty E sender file args env cols rows fromPtyId s = (r, s')"
      and "spawn_calls (trace s') = spawn_calls (trace s) @ [(file, args, opts)]"
      and "spawn E file args opts = Inl e"
  shows "r = Inl (SpawnError e) \<and> ptyCounter s' = ptyCounter s \<and> ptyMap s' = ptyMap s
         \<and> listeners s' = listeners s"
proof (cases "global_lodash E")
  case False
  with assms(1) have "s' = s" by (simp add: createPty_def)
  with assms(2) show ?thesis by simp
next
  case True
  with assms show ?thesis
    by (auto simp add: createPty_def Let_def emit_def spawn_calls_append
             split: option.splits sum.splits prod.splits if_splits)
qed

theorem createPty_spawn_error_witness:
  "fst (createPty failing_env 7 ''/bin/nosuch'' [] [] 80 24 (Some 2) example_state)
     = Inl (SpawnError ''ENOENT'')
   \<and> ptyCounter (snd (createPty failing_env 7 ''/bin/nosuch'' [] [] 80 24 (Some 2) example_state))
     = 3
   \<and> ptyMap (snd (createPty failing_env 7 ''/bin/nosuch'' [] [] 80 24 (Some 2) example_state))
     = ptyMap example_state"
proof -
  let ?opts = "\<lparr>opt_name = ''xterm'', opt_cols = 80, opt_rows = 24,
                 opt_env = [(''TERM'', ''xterm'')], opt_cwd = None\<rparr>"
  obtain r s' where rs:
    "createPty failing_env 7 ''/bin/nosuch'' [] [] 80 24 (Some 2) example_state = (r, s')"
    by (cases "createPty failing_env 7 ''/bin/nosuch'' [] [] 80 24 (Some 2) example_state")
  have l: "spawn_calls (trace s') =
             spawn_calls (trace example_state) @ [(''/bin/nosuch'', [], ?opts)]"
    using rs
    by (auto simp add: createPty_def Let_def emit_def failing_env_def example_state_def
          example_tuple_def Map_get_def)
  have f: "spawn failing_env ''/bin/nosuch'' [] ?opts = Inl ''ENOENT''"
    by (simp add: failing_env_def)
  have c: "ptyCounter example_state = 3"
    by (simp add: example_state_def)
  from createPty_spawn_error [OF rs l f] show ?thesis
    unfolding rs by (simp add: c)
qed

section \<open>Closing a window\<close>

text \<open>
  The loop, started on the keys of a suffix \<open>rest\<close> of the map: it never meets a key that
  is gone, it destroys the sessions of the window in \<open>rest\<close>, in order, and leaves the
  prefix alone.
\<close>

lemma cleanUpPtyWindow_loop_result:
  "ptyMap s = pre @ rest \<Longrightarrow> distinct (map fst (pre @ rest)) \<Longrightarrow>
   cleanUpPtyWindow_loop w (map fst rest) s =
     (Inr (), s\<lparr>ptyMap := pre @ filter (\<lambda>p. windowId (snd p) \<noteq> w) rest,
                trace := trace s @ map (\<lambda>p. Pty_destroy (ptyTerm (snd p)))
                                     (filter (\<lambda>p. windowId (snd p) = w) rest)\<rparr>)"
proof (induction rest arbitrary: pre s)
  case Nil
  then show ?case by simp
next
  case (Cons kt rest)
  obtain k t where kt: "kt = (k, t)" by (cases kt)
  from Cons.prems kt have fresh: "k \<notin> fst ` set pre" "k \<notin> fst ` set rest"
    by auto
  have get: "Map_get (ptyMap s) k = Some t"
    using Cons.prems(1) fresh(1) by (simp add: kt Map_get_append_hit)
  show ?case
  proof (cases "windowId t = w")
    case True
    let ?s1 = "closePty k s"
    have s1: "?s1 = s\<lparr>trace := trace s @ [Pty_destroy (ptyTerm t)], ptyMap := pre @ rest\<rparr>"
      using get Cons.prems(1) fresh
      by (simp add: closePty_def emit_def Let_def kt Map_delete_append_hit)
    have m1: "ptyMap ?s1 = pre @ rest" by (simp add: s1)
    have d1: "distinct (map fst (pre @ rest))" using Cons.prems(2) by (simp add: kt)
    show ?thesis
      using Cons.IH [OF m1 d1] get True
      by (simp add: kt s1)
  next
    case False
    have m1: "ptyMap s = (pre @ [kt]) @ rest" using Cons.prems(1) by simp
    have d1: "distinct (map fst ((pre @ [kt]) @ rest))" using Cons.prems(2) by simp
    show ?thesis
      using Cons.IH [OF m1 d1] get False
      by (simp add: kt)
  qed
qed

lemma cleanUpPtyWindow_result:
  assumes "distinct (Map_keys (ptyMap s))"
  shows "cleanUpPtyWindow w s =
     (Inr (), s\<lparr>ptyMap := filter (\<lambda>p. windowId (snd p) \<noteq> w) (ptyMap s),
                trace := trace s @ map (\<lambda>p. Pty_destroy (ptyTerm (snd p)))
                                     (filter (\<lambda>p. windowId (snd p) = w) (ptyMap s))\<rparr>)"
  using cleanUpPtyWindow_loop_result [of s "[]" "ptyMap s" w] assms
  by (simp add: cleanUpPtyWindow_def Map_keys_def)

lemma TerminalWindow_closePty_eq: "TerminalWindow_closePty i s = closePty i s"
  by (simp add: TerminalWindow_closePty_def closePty_def)

lemma TerminalWindow_loop_eq:
  "TerminalWindow_cleanUpPtyWindow_loop w ks s = cleanUpPtyWindow_loop w ks s"
  by (induction ks arbitrary: s) (auto simp: TerminalWindow_closePty_eq split: option.splits)

text \<open>
  Claim C2. On a session map (no key twice, as in any JavaScript \<open>Map\<close>),
  \<open>cleanUpPtyWindow w\<close> raises nothing; it calls \<open>destroy\<close> on the Pty of exactly the
  sessions whose recorded window id is \<open>w\<close>, once each and in the order of the map, and
  removes them; every session of another window is still in the map under its id with the
  same tuple; afterwards no session in the map is owned by \<open>w\<close>. The method of
  TerminalWindow of the same name does the same.
\<close>

theorem cleanUpPtyWindow_cascade:
  assumes "distinct (Map_keys (ptyMap s))"
      and "cleanUpPtyWindow w s = (r, s')"
  shows "r = Inr ()
     \<and> trace s' = trace s @ map (\<lambda>p. Pty_destroy (ptyTerm (snd p)))
                              (filter (\<lambda>p. windowId (snd p) = w) (ptyMap s))
     \<and> ptyMap s' = filter (\<lambda>p. windowId (snd p) \<noteq> w) (ptyMap s)
     \<and> (\<forall>k tup. Map_get (ptyMap s) k = Some tup \<and> windowId tup \<noteq> w
           \<longrightarrow> Map_get (ptyMap s') k = Some tup)
     \<and> (\<forall>k tup. Map_get (ptyMap s) k = Some tup \<and> windowId tup = w
           \<longrightarrow> Map_get (ptyMap s') k = None)
     \<and> (\<forall>k tup. Map_get (ptyMap s') k = Some tup \<longrightarrow> windowId tup \<noteq> w)
     \<and> ptyCounter s' = ptyCounter s \<and> listeners s' = listeners s
     \<and> TerminalWindow_cleanUpPtyWindow w s = (r, s')"
proof -
  have res: "s' = s\<lparr>ptyMap := filter (\<lambda>p. windowId (snd p) \<noteq> w) (ptyMap s),
                trace := trace s @ map (\<lambda>p. Pty_destroy (ptyTerm (snd p)))
                                     (filter (\<lambda>p. windowId (snd p) = w) (ptyMap s))\<rparr>"
    and r: "r = Inr ()"
    using cleanUpPtyWindow_result [OF assms(1), of w] assms(2) by simp_all
  have d: "distinct (map fst (ptyMap s))" using assms(1) by (simp add: Map_keys_def)
  have tw: "TerminalWindow_cleanUpPtyWindow w s = cleanUpPtyWindow w s"
    by (simp add: TerminalWindow_cleanUpPtyWindow_def cleanUpPtyWindow_def TerminalWindow_loop_eq)
  show ?thesis
    using r tw assms(2)
    by (auto simp add: res Map_get_filter_window [OF d] split: option.splits if_splits)
qed

theorem cleanUpPtyWindow_cascade_witness:
  "distinct (Map_keys (ptyMap example_state))
   \<and> destroy_calls (trace (snd (cleanUpPtyWindow 3 example_state))) = [10, 12]
   \<and> Map_keys (ptyMap (snd (cleanUpPtyWindow 3 example_state))) = [2]"
proof -
  have d: "distinct (Map_keys (ptyMap example_state))"
    by (simp add: example_state_def Map_keys_def)
  obtain r s' where rs: "cleanUpPtyWindow 3 example_state = (r, s')"
    by (cases "cleanUpPtyWindow 3 example_state")
  from cleanUpPtyWindow_cascade [OF d rs] show ?thesis
    using d rs by (simp add: example_state_def example_tuple_def Map_keys_def)
qed

section \<open>Closing a session\<close>

text \<open>
  Claim C3. \<open>closePty\<close> on an id that is not in the map changes nothing (and nothing in
  it can raise); a second \<open>closePty\<close> on the same id changes nothing more, so the two
  calls together call \<open>destroy\<close> at most once: exactly once if the session was there,
  never otherwise; and after the exit callback of the session has run, \<open>closePty\<close> on
  its id changes nothing. The method of TerminalWindow of the same name is the same function.
\<close>

theorem closePty_idempotent:
  "(Map_get (ptyMap s) i = None \<longrightarrow> closePty i s = s)
   \<and> closePty i (closePty i s) = closePty i s
   \<and> destroy_calls (trace (closePty i (closePty i s))) =
       destroy_calls (trace s) @
         (case Map_get (ptyMap s) i of None \<Rightarrow> [] | Some tup \<Rightarrow> [ptyTerm tup])
   \<and> closePty i (onExit_callback E sender i p s) = onExit_callback E sender i p s
   \<and> Map_get (ptyMap (closePty i s)) i = None
   \<and> TerminalWindow_closePty i s = closePty i s"
proof -
  have gone: "Map_get (ptyMap (closePty i s)) i = None"
    by (simp add: closePty_def Let_def emit_def Map_get_delete_same split: option.splits)
  have twice: "closePty i (closePty i s) = closePty i s"
    using gone by (simp add: closePty_def [of i "closePty i s"])
  have calls: "destroy_calls (trace (closePty i s)) =
       destroy_calls (trace s) @
         (case Map_get (ptyMap s) i of None \<Rightarrow> [] | Some tup \<Rightarrow> [ptyTerm tup])"
    by (simp add: closePty_def Let_def emit_def destroy_calls_append split: option.splits)
  have exited: "Map_get (ptyMap (onExit_callback E sender i p s)) i = None"
    by (simp add: onExit_callback_def Let_def emit_def Map_get_delete_same)
  have after_exit: "closePty i (onExit_callback E sender i p s) = onExit_callback E sender i p s"
    using exited by (simp add: closePty_def [of i "onExit_callback E sender i p s"])
  have absent: "Map_get (ptyMap s) i = None \<longrightarrow> closePty i s = s"
    by (simp add: closePty_def)
  show ?thesis
    using gone twice calls after_exit absent TerminalWindow_closePty_eq by simp
qed

theorem closePty_idempotent_witness:
  "Map_get (ptyMap example_state) 9 = None \<and> closePty 9 example_state = example_state
   \<and> destroy_calls (trace (closePty 2 (closePty 2 example_state))) = [11]"
proof -
  have a: "Map_get (ptyMap example_state) 9 = None"
    by (simp add: example_state_def Map_get_def)
  have t: "destroy_calls (trace example_state) = []"
    by (simp add: example_state_def)
  have g: "Map_get (ptyMap example_state) 2 = Some (example_tuple 4 11)"
    by (simp add: example_state_def Map_get_def)
  have n: "closePty 9 example_state = example_state"
    using closePty_idempotent [of example_state 9 example_env 7 5] a by blast
  have "destroy_calls (trace (closePty 2 (closePty 2 example_state))) =
       destroy_calls (trace example_state) @
         (case Map_get (ptyMap example_state) 2 of None \<Rightarrow> [] | Some tup \<Rightarrow> [ptyTerm tup])"
    using closePty_idempotent [of example_state 2 example_env 7 5] by blast
  then have d: "destroy_calls (trace (closePty 2 (closePty 2 example_state))) = [11]"
    by (simp add: t g example_tuple_def)
  show ?thesis
    using a n d by blast
qed

section \<open>Requests that name a session\<close>

text \<open>
  Claim C5. For a PTY_INPUT, PTY_OUTPUT_BUFFER_SIZE or PTY_RESIZE message whose id is not a
  key of the map, the handler logs its warning and does nothing else: map, counter and
  listeners are as before and no Pty is touched. For an id that is present, the one thing
  the handler does is call \<open>write\<close>, \<open>permittedDataSize\<close> or \<open>resize\<close> on the Pty of that
  session with the fields of the message. Neither case changes the map.
\<close>

theorem unknown_session_dropped:
  "(Map_get (ptyMap s) (input_id im) = None \<longrightarrow>
      handlePtyInput im s = s\<lparr>trace := trace s @ [Logger_warn
        ''handlePtyInput() WARNING: Input arrived for a terminal which doesn't exist.'']\<rparr>)
   \<and> (Map_get (ptyMap s) (buffer_id bm) = None \<longrightarrow>
      handlePtyOutputBufferSize bm s = s\<lparr>trace := trace s @ [Logger_warn
        ''handlePtyOutputBufferSize() WARNING: Input arrived for a terminal which doesn't exist.'']\<rparr>)
   \<and> (Map_get (ptyMap s) (resize_id rm) = None \<longrightarrow>
      handlePtyResize rm s = s\<lparr>trace := trace s @ [Logger_warn
        ''handlePtyResize() WARNING: Input arrived for a terminal which doesn't exist.'']\<rparr>)
   \<and> (\<forall>tup. Map_get (ptyMap s) (input_id im) = Some tup \<longrightarrow>
      handlePtyInput im s = s\<lparr>trace := trace s @ [Pty_write (ptyTerm tup) (input_data im)]\<rparr>)
   \<and> (\<forall>tup. Map_get (ptyMap s) (buffer_id bm) = Some tup \<longrightarrow>
      handlePtyOutputBufferSize bm s =
        s\<lparr>trace := trace s @ [Pty_permittedDataSize (ptyTerm tup) (buffer_size bm)]\<rparr>)
   \<and> (\<forall>tup. Map_get (ptyMap s) (resize_id rm) = Some tup \<longrightarrow>
      handlePtyResize rm s =
        s\<lparr>trace := trace s @ [Pty_resize (ptyTerm tup) (resize_columns rm) (resize_rows rm)]\<rparr>)
   \<and> ptyMap (handlePtyInput im s) = ptyMap s
   \<and> ptyMap (handlePtyOutputBufferSize bm s) = ptyMap s
   \<and> ptyMap (handlePtyResize rm s) = ptyMap s"
  by (simp add: handlePtyInput_def handlePtyOutputBufferSize_def handlePtyResize_def emit_def
        split: option.splits)

theorem unknown_session_dropped_witness:
  "Map_get (ptyMap example_state) 9 = None
   \<and> trace (handlePtyInput \<lparr>input_id = 9, input_data = ''ls''\<rparr> example_state) =
       [Logger_warn ''handlePtyInput() WARNING: Input arrived for a terminal which doesn't exist.'']
   \<and> ptyMap (handlePtyInput \<lparr>input_id = 9, input_data = ''ls''\<rparr> example_state) =
       ptyMap example_state
   \<and> trace (handlePtyResize \<lparr>resize_id = 2, resize_columns = 100, resize_rows = 30\<rparr>
              example_state) = [Pty_resize 11 100 30]"
proof -
  have a: "Map_get (ptyMap example_state) 9 = None"
    by (simp add: example_state_def Map_get_def)
  have g: "Map_get (ptyMap example_state) 2 = Some (example_tuple 4 11)"
    by (simp add: example_state_def Map_get_def)
  have t: "trace example_state = []"
    by (simp add: example_state_def)
  from unknown_session_dropped [of example_state "\<lparr>input_id = 9, input_data = ''ls''\<rparr>"
         "\<lparr>buffer_id = 9, buffer_size = 0\<rparr>"
         "\<lparr>resize_id = 2, resize_columns = 100, resize_rows = 30\<rparr>"]
  show ?thesis
    by (simp add: a g t example_tuple_def)
qed


section \<open>The options given to spawn\<close>

lemma wellformed_no_zero: "wellformed s \<Longrightarrow> Map_get (ptyMap s) 0 = None"
  by (auto simp: wellformed_def Map_get_def Map_keys_def map_of_eq_None_iff)

text \<open>
  What the statements after the first do for the working directory, where lodash is bound:
  in a state of the manager, spawn is called once, with the directory of the session that
  \<open>fromPtyId\<close> names when there is one, and with no \<open>cwd\<close> otherwise.
\<close>

lemma createPty_cwd_with_lodash:
  assumes "global_lodash E" and "wellformed s"
      and "createPty E sender file args env cols rows fromPtyId s = (r, s')"
  shows "\<exists>opts. spawn_calls (trace s') = spawn_calls (trace s) @ [(file, args, opts)]
     \<and> (\<forall>n tup d. fromPtyId = Some n \<and> Map_get (ptyMap s) n = Some tup
             \<and> getCwd E (ptyTerm tup) = Some d \<and> d \<noteq> [] \<longrightarrow> opt_cwd opts = Some d)
     \<and> (fromPtyId = None \<longrightarrow> opt_cwd opts = None)
     \<and> (\<forall>n. fromPtyId = Some n \<and> Map_get (ptyMap s) n = None \<longrightarrow> opt_cwd opts = None)
     \<and> (\<forall>n tup. fromPtyId = Some n \<and> Map_get (ptyMap s) n = Some tup
             \<and> getCwd E (ptyTerm tup) = None \<longrightarrow> opt_cwd opts = None)"
  using assms(1) assms(3) wellformed_no_zero [OF assms(2)]
  by (auto simp add: createPty_def Let_def emit_def spawn_calls_append
           split: option.splits sum.splits prod.splits if_splits)


text \<open>
  Claim C9, as stated, fails: where createPty gets as far as spawn, the environment spawn
  receives is not the caller's mapping whenever that mapping does not already bind TERM to
  xterm. Here lodash is bound, the caller passes TERM=xterm-256color and spawn receives
  TERM=xterm.
\<close>

theorem createPty_env_counterexample:
  "map (opt_env \<circ> snd \<circ> snd)
     (spawn_calls (trace (snd (createPty example_env 7 ''/bin/sh'' []
        [(''TERM'', ''xterm-256color'')] 80 24 None PtyManager_new))))
   \<noteq> [[(''TERM'', ''xterm-256color'')]]"
  by (simp add: createPty_def Let_def emit_def example_env_def PtyManager_new_def)

text \<open>
  Claim C9, amended. A call of createPty that calls spawn calls it exactly once, with an
  environment that is the caller's mapping in which TERM is set to xterm (overwritten in
  place if the caller bound it, added otherwise); every other entry is passed unchanged.
  That is every call where lodash is bound; a call where it is not makes no call of spawn.
\<close>

theorem createPty_env_term:
  "(global_lodash E \<longrightarrow>
      (\<exists>cwd. spawn_calls (trace (snd (createPty E sender file args env cols rows fromPtyId s))) =
         spawn_calls (trace s) @
           [(file, args, \<lparr>opt_name = ''xterm'', opt_cols = cols, opt_rows = rows,
                           opt_env = Map_set ''TERM'' ''xterm'' env, opt_cwd = cwd\<rparr>)]))
   \<and> (\<not> global_lodash E \<longrightarrow>
        spawn_calls (trace (snd (createPty E sender file args env cols rows fromPtyId s))) =
          spawn_calls (trace s))
   \<and> Map_get (Map_set ''TERM'' ''xterm'' env) ''TERM'' = Some ''xterm''
   \<and> (\<forall>k. k \<noteq> ''TERM'' \<longrightarrow> Map_get (Map_set ''TERM'' ''xterm'' env) k = Map_get env k)"
  by (auto simp add: createPty_def Let_def emit_def spawn_calls_append Map_get_set
           split: option.splits sum.splits prod.splits if_splits)

theorem createPty_env_term_witness:
  "global_lodash example_env
   \<and> map (opt_env \<circ> snd \<circ> snd)
     (spawn_calls (trace (snd (createPty example_env 7 ''/bin/sh'' []
        [(''TERM'', ''xterm-256color''), (''HOME'', ''/root'')] 80 24 None PtyManager_new))))
   = [[(''TERM'', ''xterm''), (''HOME'', ''/root'')]]"
proof -
  have b: "global_lodash example_env"
    by (simp add: example_env_def)
  from createPty_env_term [of example_env 7 "''/bin/sh''" "[]"
          "[(''TERM'', ''xterm-256color''), (''HOME'', ''/root'')]" 80 24 None PtyManager_new] b
  show ?thesis
    by (auto simp add: PtyManager_new_def)
qed

section \<open>The tuple createPty registers\<close>

text \<open>
  Claim C10, as stated, fails in its last part: a session that createPty has just created,
  with \<open>outputBufferSize\<close> 0 and \<open>outputPaused\<close> true in its tuple and before any
  PTY_OUTPUT_BUFFER_SIZE has arrived, has its output sent on at once. The data callback
  reads neither field.
\<close>

theorem createPty_fresh_output_counterexample:
  "Map_get (ptyMap (snd (createPty example_env 7 ''/bin/sh'' [] [] 80 24 None PtyManager_new))) 1
     = Some \<lparr>windowId = 3, ptyTerm = 5, outputBufferSize = 0, outputPaused = True\<rparr>
   \<and> trace (deliver 5 [(example_env, ''hello'')]
        (snd (createPty example_env 7 ''/bin/sh'' [] [] 80 24 None PtyManager_new)))
     = trace (snd (createPty example_env 7 ''/bin/sh'' [] [] 80 24 None PtyManager_new))
         @ [Sender_send 7 (PTY_OUTPUT 1 ''hello'')]"
  by (simp add: createPty_def Let_def emit_def example_env_def PtyManager_new_def
        js_increment_def Map_get_def fire_def call_listener_def onData_callback_def)

text \<open>
  Claim C10, amended. When createPty returns an id, the map holds under that id the tuple
  with \<open>outputBufferSize\<close> 0, \<open>outputPaused\<close> true, the Pty that spawn returned, and as
  \<open>windowId\<close> the id of the BrowserWindow of the sender; the entries of all other ids are
  as before. The two fields are bookkeeping alone: the data callback registered for the
  session sends on every chunk that arrives while the sender is not destroyed, in whatever
  state the manager is.
\<close>

theorem createPty_initial_tuple:
  assumes "createPty E sender file args env cols rows fromPtyId s = (Inr i, s')"
  shows "\<exists>w p opts. fromWebContents E sender = Some w
     \<and> spawn_calls (trace s') = spawn_calls (trace s) @ [(file, args, opts)]
     \<and> spawn E file args opts = Inr p
     \<and> Map_get (ptyMap s') i =
         Some \<lparr>windowId = w, ptyTerm = p, outputBufferSize = 0, outputPaused = True\<rparr>
     \<and> (\<forall>k. k \<noteq> i \<longrightarrow> Map_get (ptyMap s') k = Map_get (ptyMap s) k)
     \<and> listeners s' = listeners s @
          [(p, OnData sender i), (p, OnExit sender i p),
           (p, OnAvailableWriteBufferSizeChange sender i)]
     \<and> (\<forall>E' chunk st. \<not> isDestroyed E' sender \<longrightarrow>
           call_listener E' (OnData sender i) (Data chunk) st =
             st\<lparr>trace := trace st @ [Sender_send sender (PTY_OUTPUT i chunk)]\<rparr>)"
  using assms
  by (auto simp add: createPty_def Let_def emit_def Map_get_set spawn_calls_append
             call_listener_def onData_callback_def
           split: option.splits sum.splits prod.splits if_splits)

theorem createPty_initial_tuple_witness:
  "createPty example_env 7 ''/bin/sh'' [] [] 80 24 None example_state
     = (Inr 4, snd (createPty example_env 7 ''/bin/sh'' [] [] 80 24 None example_state))
   \<and> Map_get (ptyMap (snd (createPty example_env 7 ''/bin/sh'' [] [] 80 24 None example_state))) 4
     = Some \<lparr>windowId = 3, ptyTerm = 5, outputBufferSize = 0, outputPaused = True\<rparr>"
proof -
  let ?c = "createPty example_env 7 ''/bin/sh'' [] [] 80 24 None example_state"
  have f: "fst ?c = Inr 4"
    by (simp add: createPty_def Let_def emit_def example_env_def example_state_def
          js_increment_def)
  then have rs: "?c = (Inr 4, snd ?c)"
    by (metis prod.collapse)
  from createPty_initial_tuple [OF rs] obtain w p opts where
    a: "fromWebContents example_env 7 = Some w"
    and b: "spawn example_env ''/bin/sh'' [] opts = Inr p"
    and c: "Map_get (ptyMap (snd ?c)) 4 =
         Some \<lparr>windowId = w, ptyTerm = p, outputBufferSize = 0, outputPaused = True\<rparr>"
    by blast
  from a b have "w = 3" "p = 5" by (simp_all add: example_env_def)
  with c rs show ?thesis by simp
qed

section \<open>The callbacks of a session\<close>

lemma fold_registered:
  "fold (\<lambda>ql st. if fst ql = p then f (snd ql) st else st) ls s =
     fold f (map snd (filter (\<lambda>ql. fst ql = p) ls)) s"
  by (induction ls arbitrary: s) simp_all

lemma fire_listeners_of: "fire E p ev s = fold (\<lambda>l. call_listener E l ev) (listeners_of p s) s"
  unfolding fire_def listeners_of_def
  by (rule fold_registered [where f = "\<lambda>l. call_listener E l ev"])

text \<open>
  What createPty registers, when it succeeds: on the Pty of the new session, after whatever
  was registered on that object before, the three callbacks with the id of the session.
\<close>

lemma createPty_registers:
  assumes "createPty E sender file args env cols rows fromPtyId s = (Inr i, s')"
      and "Map_get (ptyMap s') i = Some tup"
  shows "listeners_of (ptyTerm tup) s' = listeners_of (ptyTerm tup) s @
           [OnData sender i, OnExit sender i (ptyTerm tup),
            OnAvailableWriteBufferSizeChange sender i]"
  using assms
  by (auto simp add: createPty_def Let_def emit_def Map_get_set listeners_of_def
           split: option.splits sum.splits prod.splits if_splits)

lemma fire_Exit_own:
  assumes "listeners_of p st = [OnData sender i, OnExit sender i p,
             OnAvailableWriteBufferSizeChange sender i]"
  shows "fire E p Exit st = onExit_callback E sender i p st"
  by (simp add: fire_listeners_of assms call_listener_def)

lemma fire_Data_own:
  assumes "listeners_of p st = [OnData sender i, OnExit sender i p,
             OnAvailableWriteBufferSizeChange sender i]"
  shows "fire E p (Data chunk) st = onData_callback E sender i chunk st"
  by (simp add: fire_listeners_of assms call_listener_def)

text \<open>
  Claim C6, as stated, fails: the exit callback sends PTY_CLOSE only when the sender is not
  destroyed. Here session 1 is in the map with its three callbacks on its Pty, its sender
  is destroyed when the Pty fires its exit, and the callback logs and destroys the Pty
  without sending anything.
\<close>

theorem onExit_close_counterexample:
  "Map_get (ptyMap session_state) 1
     = Some \<lparr>windowId = 3, ptyTerm = 5, outputBufferSize = 0, outputPaused = True\<rparr>
   \<and> listeners_of 5 session_state =
       [OnData 7 1, OnExit 7 1 5, OnAvailableWriteBufferSizeChange 7 1]
   \<and> trace (fire destroyed_env 5 Exit session_state)
     = trace session_state @ [Logger_debug ''pty process exited.'', Pty_destroy 5]"
  by (simp add: session_state_def example_tuple_def destroyed_env_def emit_def Let_def
        Map_get_def listeners_of_def fire_def call_listener_def onExit_callback_def)

text \<open>
  Claim C6, amended. Take a session with id \<open>i\<close>, sender \<open>sender\<close> and Pty \<open>p\<close>, in any
  state \<open>st\<close> in which the callbacks on \<open>p\<close> are the three that createPty registers for that
  session. When the Pty fires its exit: if the sender is not destroyed, a PTY_CLOSE
  envelope with the id of the session is sent to it, and if it is destroyed, nothing is
  sent; after that, in both cases, \<open>destroy\<close> is called on the Pty and the id is deleted
  from the map, so that it is no longer a key.
\<close>

theorem onExit_closes_session:
  assumes "listeners_of p st =
      [OnData sender i, OnExit sender i p, OnAvailableWriteBufferSizeChange sender i]"
  shows "trace (fire E' p Exit st) =
           trace st @ [Logger_debug ''pty process exited.''] @
             (if isDestroyed E' sender then [] else [Sender_send sender (PTY_CLOSE i)]) @
             [Pty_destroy p]
     \<and> ptyMap (fire E' p Exit st) = Map_delete i (ptyMap st)
     \<and> Map_get (ptyMap (fire E' p Exit st)) i = None
     \<and> i \<notin> set (Map_keys (ptyMap (fire E' p Exit st)))
     \<and> ptyCounter (fire E' p Exit st) = ptyCounter st
     \<and> listeners (fire E' p Exit st) = listeners st"
proof -
  have f: "fire E' p Exit st = onExit_callback E' sender i p st"
    by (rule fire_Exit_own [OF assms])
  have t: "trace (onExit_callback E' sender i p st) =
           trace st @ [Logger_debug ''pty process exited.''] @
             (if isDestroyed E' sender then [] else [Sender_send sender (PTY_CLOSE i)]) @
             [Pty_destroy p]"
    by (simp add: onExit_callback_def Let_def emit_def)
  have m: "ptyMap (onExit_callback E' sender i p st) = Map_delete i (ptyMap st)"
    by (simp add: onExit_callback_def Let_def emit_def)
  have k: "i \<notin> set (Map_keys (Map_delete i (ptyMap st)))"
    by (auto simp add: Map_delete_def Map_keys_def)
  have c: "ptyCounter (onExit_callback E' sender i p st) = ptyCounter st"
    "listeners (onExit_callback E' sender i p st) = listeners st"
    by (simp_all add: onExit_callback_def Let_def emit_def)
  show ?thesis
    unfolding f using t m k c by (simp add: Map_get_delete_same)
qed

theorem onExit_closes_session_witness:
  "listeners_of 5 session_state = [OnData 7 1, OnExit 7 1 5, OnAvailableWriteBufferSizeChange 7 1]
   \<and> trace (fire example_env 5 Exit session_state)
     = [Logger_debug ''pty process exited.'', Sender_send 7 (PTY_CLOSE 1), Pty_destroy 5]
   \<and> Map_get (ptyMap (fire example_env 5 Exit session_state)) 1 = None"
proof -
  have own: "listeners_of 5 session_state =
      [OnData 7 1, OnExit 7 1 5, OnAvailableWriteBufferSizeChange 7 1]"
    by (simp add: listeners_of_def session_state_def)
  note th = onExit_closes_session [OF own, of example_env]
  have t: "trace (fire example_env 5 Exit session_state) =
           trace session_state @ [Logger_debug ''pty process exited.''] @
             (if isDestroyed example_env 7 then [] else [Sender_send 7 (PTY_CLOSE 1)]) @
             [Pty_destroy 5]"
    by (rule th [THEN conjunct1])
  have m: "Map_get (ptyMap (fire example_env 5 Exit session_state)) 1 = None"
    by (rule th [THEN conjunct2, THEN conjunct2, THEN conjunct1])
  have alive: "\<not> isDestroyed example_env 7" "trace session_state = []"
    by (simp_all add: example_env_def session_state_def)
  show ?thesis
    using own t m alive by simp
qed

text \<open>
  Claim C7, as stated, fails: a chunk delivered while the sender is destroyed is dropped,
  although the session is still in the map.
\<close>

theorem onData_forward_counterexample:
  "Map_get (ptyMap session_state) 1
     = Some \<lparr>windowId = 3, ptyTerm = 5, outputBufferSize = 0, outputPaused = True\<rparr>
   \<and> listeners_of 5 session_state =
       [OnData 7 1, OnExit 7 1 5, OnAvailableWriteBufferSizeChange 7 1]
   \<and> trace (deliver 5 [(destroyed_env, ''hello'')] session_state) = trace session_state
   \<and> Map_get (ptyMap (deliver 5 [(destroyed_env, ''hello'')] session_state)) 1
     = Some \<lparr>windowId = 3, ptyTerm = 5, outputBufferSize = 0, outputPaused = True\<rparr>"
  by (simp add: session_state_def example_tuple_def destroyed_env_def
        Map_get_def listeners_of_def fire_def call_listener_def onData_callback_def)

lemma deliver_own:
  assumes "listeners_of p st = [OnData sender i, OnExit sender i p,
             OnAvailableWriteBufferSizeChange sender i]"
  shows "deliver p chunks st =
     st\<lparr>trace := trace st @ map (\<lambda>Ec. Sender_send sender (PTY_OUTPUT i (snd Ec)))
                               (filter (\<lambda>Ec. \<not> isDestroyed (fst Ec) sender) chunks)\<rparr>"
  using assms
proof (induction chunks arbitrary: st)
  case Nil
  then show ?case by simp
next
  case (Cons Ec chunks)
  let ?st1 = "fire (fst Ec) p (Data (snd Ec)) st"
  have f: "?st1 = onData_callback (fst Ec) sender i (snd Ec) st"
    by (rule fire_Data_own [OF Cons.prems])
  have l: "listeners_of p ?st1 = listeners_of p st"
    by (simp add: f onData_callback_def emit_def listeners_of_def)
  show ?case
    using Cons.IH [of ?st1] l Cons.prems
    by (simp add: f onData_callback_def emit_def)
qed

text \<open>
  Claim C7, amended. For a session as in C6 and any sequence of chunks its Pty delivers,
  the envelopes sent are exactly one PTY_OUTPUT with the id of the session and the chunk
  unchanged for each chunk delivered while the sender is not destroyed, in the order of
  delivery, and nothing else changes; a chunk delivered while the sender is destroyed is
  dropped. In particular, if the sender is never destroyed, every chunk is forwarded.
\<close>

text \<open>
  Claim C7, amended. For a session as in C6 and any sequence of chunks its Pty delivers,
  the envelopes sent are exactly one PTY_OUTPUT with the id of the session and the chunk
  unchanged for each chunk delivered while the sender is not destroyed, in the order of
  delivery, and nothing else changes; a chunk delivered while the sender is destroyed is
  dropped. In particular, if the sender is never destroyed, every chunk is forwarded.
\<close>

theorem onData_forwards_chunks:
  assumes "listeners_of p st =
      [OnData sender i, OnExit sender i p, OnAvailableWriteBufferSizeChange sender i]"
  shows "deliver p chunks st =
     st\<lparr>trace := trace st @ map (\<lambda>Ec. Sender_send sender (PTY_OUTPUT i (snd Ec)))
                               (filter (\<lambda>Ec. \<not> isDestroyed (fst Ec) sender) chunks)\<rparr>
     \<and> ((\<forall>Ec \<in> set chunks. \<not> isDestroyed (fst Ec) sender) \<longrightarrow>
          trace (deliver p chunks st) =
            trace st @ map (\<lambda>Ec. Sender_send sender (PTY_OUTPUT i (snd Ec))) chunks)"
proof -
  have all: "(\<forall>Ec \<in> set chunks. \<not> isDestroyed (fst Ec) sender) \<Longrightarrow>
      filter (\<lambda>Ec. \<not> isDestroyed (fst Ec) sender) chunks = chunks"
    by (simp add: filter_id_conv)
  show ?thesis
    using all by (auto simp add: deliver_own [OF assms])
qed

theorem onData_forwards_chunks_witness:
  "listeners_of 5 session_state = [OnData 7 1, OnExit 7 1 5, OnAvailableWriteBufferSizeChange 7 1]
   \<and> trace (deliver 5 [(example_env, ''ab''), (destroyed_env, ''cd''), (example_env, ''ef'')]
        session_state)
     = [Sender_send 7 (PTY_OUTPUT 1 ''ab''), Sender_send 7 (PTY_OUTPUT 1 ''ef'')]"
proof -
  have own: "listeners_of 5 session_state =
      [OnData 7 1, OnExit 7 1 5, OnAvailableWriteBufferSizeChange 7 1]"
    by (simp add: listeners_of_def session_state_def)
  have d: "\<not> isDestroyed example_env 7" "isDestroyed destroyed_env 7"
    "trace session_state = []"
    by (simp_all add: example_env_def destroyed_env_def session_state_def)
  from onData_forwards_chunks [OF own,
         of "[(example_env, ''ab''), (destroyed_env, ''cd''), (example_env, ''ef'')]"] d own
  show ?thesis by simp
qed

text \<open>
  The state of these examples is the one createPty leaves, where lodash is bound, when a
  new manager creates its first session (but for the trace of that call).
\<close>

lemma session_state_created:
  "snd (createPty example_env 7 ''/bin/sh'' [] [] 80 24 None PtyManager_new)
     = session_state\<lparr>trace := trace (snd (createPty example_env 7 ''/bin/sh'' [] [] 80 24 None
                                 PtyManager_new))\<rparr>"
  by (simp add: createPty_def Let_def emit_def example_env_def PtyManager_new_def
        js_increment_def session_state_def example_tuple_def)

section \<open>Session ids\<close>

lemma js_increment_ge: "c \<le> js_increment c"
  by (simp add: js_increment_def)

lemma js_increment_below:
  "0 \<le> c \<Longrightarrow> js_increment c < 9007199254740992 \<Longrightarrow> js_increment c = c + 1"
  by (simp add: js_increment_def split: if_splits)

lemma createPty_counter:
  assumes "createPty E sender file args env cols rows fromPtyId s = (r, s')"
  shows "ptyCounter s \<le> ptyCounter s'
     \<and> (\<forall>i. r = Inr i \<longrightarrow> i = js_increment (ptyCounter s) \<and> ptyCounter s' = i)"
  using assms js_increment_ge [of "ptyCounter s"]
  by (auto simp add: createPty_def Let_def emit_def
           split: option.splits sum.splits prod.splits if_splits)

text \<open>What a creation that succeeds has done.\<close>

lemma createPty_session:
  assumes "createPty E sender file args env cols rows fromPtyId s = (Inr i, s')"
  shows "\<exists>w p opts. fromWebContents E sender = Some w
     \<and> spawn E file args opts = Inr p
     \<and> spawn_calls (trace s') = spawn_calls (trace s) @ [(file, args, opts)]
     \<and> Map_get (ptyMap s') i =
         Some \<lparr>windowId = w, ptyTerm = p, outputBufferSize = 0, outputPaused = True\<rparr>
     \<and> listeners s' = listeners s @
          [(p, OnData sender i), (p, OnExit sender i p),
           (p, OnAvailableWriteBufferSizeChange sender i)]"
  using assms
  by (auto simp add: createPty_def Let_def emit_def Map_get_set spawn_calls_append
           split: option.splits sum.splits prod.splits if_splits)

lemma closePty_counter: "ptyCounter (closePty i s) = ptyCounter s"
  by (simp add: closePty_def Let_def emit_def split: option.splits)

lemma cleanUpPtyWindow_loop_counter:
  "ptyCounter (snd (cleanUpPtyWindow_loop w ks s)) = ptyCounter s"
  by (induction ks arbitrary: s) (auto simp: closePty_counter split: option.splits)

lemma call_listener_counter: "ptyCounter (call_listener E l ev s) = ptyCounter s"
  by (simp add: call_listener_def onData_callback_def onExit_callback_def
        onAvailableWriteBufferSizeChange_callback_def Let_def emit_def
        split: Listener.splits PtyEvent.splits)

lemma fold_listeners_counter:
  "ptyCounter (fold (\<lambda>l. call_listener E l ev) ls s) = ptyCounter s"
  by (induction ls arbitrary: s) (simp_all add: call_listener_counter)

lemma fire_counter: "ptyCounter (fire E p ev s) = ptyCounter s"
  by (simp add: fire_listeners_of fold_listeners_counter)

lemma handlePtyCreate_createPty:
  "handlePtyCreate E sender msg s = (Inr (PTY_CREATED i), s') \<longleftrightarrow>
   createPty E sender (create_command msg) (create_args msg) (create_env msg)
     (create_columns msg) (create_rows msg) (create_fromPtyId msg) s = (Inr i, s')"
  by (auto simp add: handlePtyCreate_def split: prod.splits sum.splits)

lemma handlePtyCreate_reply:
  "handlePtyCreate E sender msg s = (Inr m, s') \<Longrightarrow> \<exists>i. m = PTY_CREATED i"
  by (auto simp add: handlePtyCreate_def split: prod.splits sum.splits)

lemma handlePtyCreate_counter:
  assumes "handlePtyCreate E sender msg s = (r, s')"
  shows "ptyCounter s \<le> ptyCounter s'
     \<and> (\<forall>i. r = Inr (PTY_CREATED i) \<longrightarrow> i = js_increment (ptyCounter s) \<and> ptyCounter s' = i)"
  using assms
  by (auto simp add: handlePtyCreate_def split: prod.splits sum.splits
           dest: createPty_counter)

lemma exec_counter:
  assumes "exec E c s = (r, s')"
  shows "ptyCounter s \<le> ptyCounter s'
     \<and> (\<forall>i. r = Some i \<longrightarrow> i = js_increment (ptyCounter s) \<and> ptyCounter s' = i)"
proof (cases c)
  case (CreatePty sender cmd args env cols rows fromPtyId)
  with assms show ?thesis
    by (auto split: prod.splits sum.splits dest: createPty_counter)
next
  case (ClosePty i)
  with assms show ?thesis by (auto simp: closePty_counter)
next
  case (CleanUpPtyWindow w)
  with assms show ?thesis
    by (auto simp: cleanUpPtyWindow_def cleanUpPtyWindow_loop_counter)
next
  case (HandlePtyCreate sender msg)
  with assms show ?thesis
    by (auto split: prod.splits sum.splits Message.splits dest: handlePtyCreate_counter)
next
  case (HandlePtyInput msg)
  with assms show ?thesis
    by (auto simp: handlePtyInput_def emit_def split: option.splits)
next
  case (HandlePtyOutputBufferSize msg)
  with assms show ?thesis
    by (auto simp: handlePtyOutputBufferSize_def emit_def split: option.splits)
next
  case (HandlePtyResize msg)
  with assms show ?thesis
    by (auto simp: handlePtyResize_def emit_def split: option.splits)
next
  case (HandlePtyCloseRequest msg)
  with assms show ?thesis
    by (auto simp: handlePtyCloseRequest_def emit_def closePty_counter split: option.splits)
next
  case (Fire p ev)
  with assms show ?thesis by (auto simp: fire_counter)
qed

text \<open>The counter never goes down, and the ids of a run never do.\<close>

lemma run_ids_weak:
  "run calls s = (ids, s') \<Longrightarrow>
     sorted_wrt (\<le>) ids \<and> (\<forall>i \<in> set ids. ptyCounter s \<le> i \<and> i \<le> ptyCounter s')
     \<and> ptyCounter s \<le> ptyCounter s'"
proof (induction calls arbitrary: s ids s')
  case Nil
  then show ?case by simp
next
  case (Cons Ec calls)
  obtain r s1 where e: "exec (fst Ec) (snd Ec) s = (r, s1)"
    by (cases "exec (fst Ec) (snd Ec) s")
  obtain ids1 s2 where r1: "run calls s1 = (ids1, s2)"
    by (cases "run calls s1")
  from Cons.prems e r1 have ids: "ids = (case r of None \<Rightarrow> ids1 | Some i \<Rightarrow> i # ids1)"
    and s': "s' = s2" by simp_all
  note ih = Cons.IH [OF r1]
  note ec = exec_counter [OF e]
  show ?case
  proof (cases r)
    case None
    with ih ec ids s' show ?thesis by fastforce
  next
    case (Some i)
    with ec have i: "ptyCounter s \<le> i" "ptyCounter s1 = i"
      using js_increment_ge [of "ptyCounter s"] by simp_all
    with ih ids s' Some show ?thesis by fastforce
  qed
qed

text \<open>
  From a counter that is not negative, and while the counter is below \<open>2^53\<close> at the end
  of a run, the ids go strictly up.
\<close>

lemma run_ids:
  "run calls s = (ids, s') \<Longrightarrow> 0 \<le> ptyCounter s \<Longrightarrow> ptyCounter s' < 9007199254740992 \<Longrightarrow>
     sorted_wrt (<) ids \<and> (\<forall>i \<in> set ids. ptyCounter s < i \<and> i \<le> ptyCounter s')"
proof (induction calls arbitrary: s ids s')
  case Nil
  then show ?case by simp
next
  case (Cons Ec calls)
  obtain r s1 where e: "exec (fst Ec) (snd Ec) s = (r, s1)"
    by (cases "exec (fst Ec) (snd Ec) s")
  obtain ids1 s2 where r1: "run calls s1 = (ids1, s2)"
    by (cases "run calls s1")
  from Cons.prems(1) e r1 have ids: "ids = (case r of None \<Rightarrow> ids1 | Some i \<Rightarrow> i # ids1)"
    and s': "s' = s2" by simp_all
  have below: "ptyCounter s2 < 9007199254740992" using Cons.prems(3) s' by simp
  note ec = exec_counter [OF e]
  have pos: "0 \<le> ptyCounter s1" using ec Cons.prems(2) by simp
  note ih = Cons.IH [OF r1 pos below]
  have mono: "ptyCounter s1 \<le> ptyCounter s2"
    using run_ids_weak [OF r1] by simp
  show ?case
  proof (cases r)
    case None
    with ih ec ids s' show ?thesis by fastforce
  next
    case (Some i)
    with ec have i: "i = js_increment (ptyCounter s)" "ptyCounter s1 = i" by simp_all
    with mono below have "js_increment (ptyCounter s) < 9007199254740992" by simp
    from js_increment_below [OF Cons.prems(2) this] i have i1: "i = ptyCounter s + 1" by simp
    from i(2) mono have i2: "i \<le> ptyCounter s2" by simp
    from i(2) ih have i3: "sorted_wrt (<) ids1" "\<forall>k \<in> set ids1. i < k \<and> k \<le> ptyCounter s2"
      by simp_all
    show ?thesis
      using i1 i2 i3 by (auto simp add: ids s' Some)
  qed
qed

text \<open>
  Claim C8, as stated, fails: at the counter \<open>2^53\<close> the increment is lost, and two
  creations that both succeed return the same id.
\<close>

theorem session_ids_counterexample:
  "fst (run [(example_env, CreatePty 7 ''/bin/sh'' [] [] 80 24 None),
             (example_env, CreatePty 7 ''/bin/sh'' [] [] 80 24 None)] limit_state)
     = [9007199254740992, 9007199254740992]"
  by (simp add: createPty_def Let_def emit_def example_env_def limit_state_def
        js_increment_def)

text \<open>
  Claim C8, amended. In every run of a manager (calls of its methods and Pty events in any
  order; its counter, which starts at 0, is not negative) that leaves the counter below
  \<open>2^53\<close>, the ids returned by the successful
  creations are strictly increasing, hence pairwise distinct, and above the counter the
  run started from; from a new manager they are positive. In every run they are at least
  never decreasing. The id createPty returns is the counter after \<open>++\<close>; under that id
  the map holds the tuple of the new session (the Pty that spawn returned, the window of
  the sender), the three callbacks are registered on that Pty with that id, and
  handlePtyCreate replies PTY_CREATED with that id.
\<close>

theorem session_ids_increasing:
  "(0 \<le> ptyCounter s \<and> ptyCounter (snd (run calls s)) < 9007199254740992 \<longrightarrow>
      sorted_wrt (<) (fst (run calls s))
      \<and> distinct (fst (run calls s))
      \<and> (\<forall>i \<in> set (fst (run calls s)). ptyCounter s < i))
   \<and> (ptyCounter (snd (run calls PtyManager_new)) < 9007199254740992 \<longrightarrow>
      (\<forall>i \<in> set (fst (run calls PtyManager_new)). 0 < i))
   \<and> sorted_wrt (\<le>) (fst (run calls s))
   \<and> (createPty E sender (create_command msg) (create_args msg) (create_env msg)
         (create_columns msg) (create_rows msg) (create_fromPtyId msg) s = (Inr j, s')
       \<longrightarrow> j = js_increment (ptyCounter s) \<and> ptyCounter s' = j
           \<and> (\<exists>w p opts. fromWebContents E sender = Some w
                 \<and> spawn E (create_command msg) (create_args msg) opts = Inr p
                 \<and> spawn_calls (trace s') =
                     spawn_calls (trace s) @ [(create_command msg, create_args msg, opts)]
                 \<and> Map_get (ptyMap s') j =
                     Some \<lparr>windowId = w, ptyTerm = p, outputBufferSize = 0, outputPaused = True\<rparr>
                 \<and> listeners s' = listeners s @
                     [(p, OnData sender j), (p, OnExit sender j p),
                      (p, OnAvailableWriteBufferSizeChange sender j)])
           \<and> handlePtyCreate E sender msg s = (Inr (PTY_CREATED j), s')
           \<and> exec E (HandlePtyCreate sender msg) s = (Some j, s')
           \<and> exec E (CreatePty sender (create_command msg) (create_args msg) (create_env msg)
                 (create_columns msg) (create_rows msg) (create_fromPtyId msg)) s = (Some j, s'))"
proof -
  obtain ids s2 where r: "run calls s = (ids, s2)" by (cases "run calls s")
  obtain ids0 s0 where r0: "run calls PtyManager_new = (ids0, s0)"
    by (cases "run calls PtyManager_new")
  have a: "0 \<le> ptyCounter s \<and> ptyCounter s2 < 9007199254740992 \<longrightarrow>
      sorted_wrt (<) ids \<and> distinct ids \<and> (\<forall>i \<in> set ids. ptyCounter s < i)"
  proof
    assume "0 \<le> ptyCounter s \<and> ptyCounter s2 < 9007199254740992"
    then have b0: "0 \<le> ptyCounter s" and b: "ptyCounter s2 < 9007199254740992" by simp_all
    have x: "sorted_wrt (<) ids" "\<forall>i \<in> set ids. ptyCounter s < i"
      using run_ids [OF r b0 b] by auto
    have "distinct ids" using x(1) by (simp add: strict_sorted_iff)
    with x show "sorted_wrt (<) ids \<and> distinct ids \<and> (\<forall>i \<in> set ids. ptyCounter s < i)"
      by simp
  qed
  have p: "ptyCounter s0 < 9007199254740992 \<longrightarrow> (\<forall>i \<in> set ids0. 0 < i)"
  proof
    assume b: "ptyCounter s0 < 9007199254740992"
    have z: "0 \<le> ptyCounter PtyManager_new" by (simp add: PtyManager_new_def)
    show "\<forall>i \<in> set ids0. 0 < i"
      using run_ids [OF r0 z b] by (auto simp: PtyManager_new_def)
  qed
  have w: "sorted_wrt (\<le>) ids"
    using run_ids_weak [OF r] by simp
  have c: "createPty E sender (create_command msg) (create_args msg) (create_env msg)
         (create_columns msg) (create_rows msg) (create_fromPtyId msg) s = (Inr j, s')
       \<longrightarrow> j = js_increment (ptyCounter s) \<and> ptyCounter s' = j
           \<and> (\<exists>w p opts. fromWebContents E sender = Some w
                 \<and> spawn E (create_command msg) (create_args msg) opts = Inr p
                 \<and> spawn_calls (trace s') =
                     spawn_calls (trace s) @ [(create_command msg, create_args msg, opts)]
                 \<and> Map_get (ptyMap s') j =
                     Some \<lparr>windowId = w, ptyTerm = p, outputBufferSize = 0, outputPaused = True\<rparr>
                 \<and> listeners s' = listeners s @
                     [(p, OnData sender j), (p, OnExit sender j p),
                      (p, OnAvailableWriteBufferSizeChange sender j)])
           \<and> handlePtyCreate E sender msg s = (Inr (PTY_CREATED j), s')
           \<and> exec E (HandlePtyCreate sender msg) s = (Some j, s')
           \<and> exec E (CreatePty sender (create_command msg) (create_args msg) (create_env msg)
                 (create_columns msg) (create_rows msg) (create_fromPtyId msg)) s = (Some j, s')"
  proof
    assume cr: "createPty E sender (create_command msg) (create_args msg) (create_env msg)
         (create_columns msg) (create_rows msg) (create_fromPtyId msg) s = (Inr j, s')"
    have h: "handlePtyCreate E sender msg s = (Inr (PTY_CREATED j), s')"
      using cr by (simp add: handlePtyCreate_createPty)
    have g: "\<exists>w p opts. fromWebContents E sender = Some w
                 \<and> spawn E (create_command msg) (create_args msg) opts = Inr p
                 \<and> spawn_calls (trace s') =
                     spawn_calls (trace s) @ [(create_command msg, create_args msg, opts)]
                 \<and> Map_get (ptyMap s') j =
                     Some \<lparr>windowId = w, ptyTerm = p, outputBufferSize = 0, outputPaused = True\<rparr>
                 \<and> listeners s' = listeners s @
                     [(p, OnData sender j), (p, OnExit sender j p),
                      (p, OnAvailableWriteBufferSizeChange sender j)]"
      using createPty_session [OF cr] by blast
    show "j = js_increment (ptyCounter s) \<and> ptyCounter s' = j
           \<and> (\<exists>w p opts. fromWebContents E sender = Some w
                 \<and> spawn E (create_command msg) (create_args msg) opts = Inr p
                 \<and> spawn_calls (trace s') =
                     spawn_calls (trace s) @ [(create_command msg, create_args msg, opts)]
                 \<and> Map_get (ptyMap s') j =
                     Some \<lparr>windowId = w, ptyTerm = p, outputBufferSize = 0, outputPaused = True\<rparr>
                 \<and> listeners s' = listeners s @
                     [(p, OnData sender j), (p, OnExit sender j p),
                      (p, OnAvailableWriteBufferSizeChange sender j)])
           \<and> handlePtyCreate E sender msg s = (Inr (PTY_CREATED j), s')
           \<and> exec E (HandlePtyCreate sender msg) s = (Some j, s')
           \<and> exec E (CreatePty sender (create_command msg) (create_args msg) (create_env msg)
                 (create_columns msg) (create_rows msg) (create_fromPtyId msg)) s = (Some j, s')"
      using createPty_counter [OF cr] h g cr by simp
  qed
  show ?thesis
    using a p w c by (simp add: r r0)
qed

theorem session_ids_increasing_witness:
  "0 \<le> ptyCounter PtyManager_new
   \<and> ptyCounter (snd (run example_calls PtyManager_new)) < 9007199254740992
   \<and> fst (run example_calls PtyManager_new) = [1, 2]
   \<and> sorted_wrt (<) (fst (run example_calls PtyManager_new))
   \<and> fst (createPty example_env 7 ''/bin/sh'' [] [] 80 24 None PtyManager_new) = Inr 1
   \<and> fst (handlePtyCreate example_env 7 example_request PtyManager_new) = Inr (PTY_CREATED 1)"
proof -
  let ?c = "createPty example_env 7 ''/bin/sh'' [] [] 80 24 None PtyManager_new"
  have f: "fst ?c = Inr 1"
    by (simp add: createPty_def Let_def emit_def example_env_def PtyManager_new_def
          js_increment_def)
  then have rs: "?c = (Inr 1, snd ?c)"
    by (metis prod.collapse)
  have ids: "fst (run example_calls PtyManager_new) = [1, 2]"
    by (simp add: example_calls_def example_request_def handlePtyCreate_def createPty_def
          closePty_def Let_def emit_def example_env_def failing_env_def PtyManager_new_def
          js_increment_def Map_get_def Map_delete_def)
  have b: "ptyCounter (snd (run example_calls PtyManager_new)) < 9007199254740992"
    by (simp add: example_calls_def example_request_def handlePtyCreate_def createPty_def
          closePty_def Let_def emit_def example_env_def failing_env_def PtyManager_new_def
          js_increment_def Map_get_def Map_delete_def)
  note th = session_ids_increasing [where calls = example_calls and s = PtyManager_new
              and E = example_env and sender = 7 and msg = example_request and j = 1
              and s' = "snd ?c"]
  have z: "0 \<le> ptyCounter PtyManager_new" by (simp add: PtyManager_new_def)
  have s: "sorted_wrt (<) (fst (run example_calls PtyManager_new))"
    using th z b by blast
  have rs': "createPty example_env 7 (create_command example_request)
      (create_args example_request) (create_env example_request)
      (create_columns example_request) (create_rows example_request)
      (create_fromPtyId example_request) PtyManager_new = (Inr 1, snd ?c)"
    using rs by (simp add: example_request_def)
  have h: "handlePtyCreate example_env 7 example_request PtyManager_new
             = (Inr (PTY_CREATED 1), snd ?c)"
    using th rs' by blast
  show ?thesis
    using z ids b s f h by simp
qed

section \<open>The states a manager can reach\<close>

text \<open>
  \<open>wellformed\<close> holds of a new manager and is kept by every
  step, hence holds in every state a run reaches.
\<close>

lemma wellformed_new: "wellformed PtyManager_new"
  by (simp add: wellformed_def PtyManager_new_def Map_keys_def)

lemma Map_set_keys:
  "map fst (Map_set k v m) = (if k \<in> fst ` set m then map fst m else map fst m @ [k])"
  by (induction m) auto

lemma wellformed_createPty:
  assumes "wellformed s"
  shows "wellformed (snd (createPty E sender cmd args env cols rows fromPtyId s))"
proof -
  let ?j = "js_increment (ptyCounter s)"
  have j: "0 < ?j \<and> ?j \<le> 9007199254740992 \<and> ptyCounter s \<le> ?j"
  proof (cases "ptyCounter s = 9007199254740992")
    case True
    then show ?thesis by (simp add: js_increment_def)
  next
    case False
    with assms show ?thesis by (auto simp: wellformed_def js_increment_def)
  qed
  have d: "distinct (map fst (ptyMap s))"
    and k: "\<forall>k \<in> set (map fst (ptyMap s)). 0 < k \<and> k \<le> ptyCounter s"
    using assms by (auto simp: wellformed_def Map_keys_def)
  have d': "\<And>v. distinct (map fst (Map_set ?j v (ptyMap s)))"
    using d by (simp add: Map_set_keys)
  have k': "\<And>v. \<forall>k \<in> set (map fst (Map_set ?j v (ptyMap s))). 0 < k \<and> k \<le> ?j"
    using k j by (auto simp add: Map_set_keys)
  show ?thesis
    using assms j d' k'
    by (auto simp add: createPty_def Let_def emit_def wellformed_def Map_keys_def
             split: option.splits sum.splits prod.splits if_splits)
qed

lemma wellformed_delete:
  "wellformed s \<Longrightarrow> wellformed (s\<lparr>ptyMap := Map_delete i (ptyMap s)\<rparr>)"
  by (auto simp add: wellformed_def Map_keys_def Map_delete_def distinct_map_filter)

lemma wellformed_emit: "wellformed (emit e s) = wellformed s"
  by (simp add: wellformed_def emit_def)

lemma wellformed_closePty: "wellformed s \<Longrightarrow> wellformed (closePty i s)"
  using wellformed_delete [of "emit e s" for e]
  by (simp add: closePty_def Let_def wellformed_emit split: option.splits)

lemma wellformed_cleanUpPtyWindow_loop:
  "wellformed s \<Longrightarrow> wellformed (snd (cleanUpPtyWindow_loop w ks s))"
  by (induction ks arbitrary: s) (auto simp: wellformed_closePty split: option.splits)

lemma wellformed_call_listener: "wellformed s \<Longrightarrow> wellformed (call_listener E l ev s)"
  using wellformed_delete [of "emit e (emit e' (emit e'' s))" for e e' e'']
        wellformed_delete [of "emit e (emit e' s)" for e e']
  by (simp add: call_listener_def onData_callback_def onExit_callback_def
        onAvailableWriteBufferSizeChange_callback_def Let_def wellformed_emit
        split: Listener.splits PtyEvent.splits)

lemma wellformed_fold_listeners:
  "wellformed s \<Longrightarrow> wellformed (fold (\<lambda>l. call_listener E l ev) ls s)"
  by (induction ls arbitrary: s) (simp_all add: wellformed_call_listener)

lemma wellformed_fire: "wellformed s \<Longrightarrow> wellformed (fire E p ev s)"
  by (simp add: fire_listeners_of wellformed_fold_listeners)

lemma wellformed_exec: "wellformed s \<Longrightarrow> wellformed (snd (exec E c s))"
proof (cases c)
  case (CreatePty sender cmd args env cols rows fromPtyId)
  assume "wellformed s"
  from wellformed_createPty [OF this, of E sender cmd args env cols rows fromPtyId] CreatePty
  show ?thesis by (auto split: prod.splits sum.splits)
next
  case (ClosePty i)
  assume "wellformed s"
  with ClosePty show ?thesis by (simp add: wellformed_closePty)
next
  case (CleanUpPtyWindow w)
  assume "wellformed s"
  with CleanUpPtyWindow show ?thesis
    by (simp add: cleanUpPtyWindow_def wellformed_cleanUpPtyWindow_loop)
next
  case (HandlePtyCreate sender msg)
  assume "wellformed s"
  from wellformed_createPty [OF this, of E sender "create_command msg" "create_args msg"
         "create_env msg" "create_columns msg" "create_rows msg" "create_fromPtyId msg"]
       HandlePtyCreate
  show ?thesis
    by (auto simp: handlePtyCreate_def split: prod.splits sum.splits Message.splits)
next
  case (HandlePtyInput msg)
  assume "wellformed s"
  with HandlePtyInput show ?thesis
    by (simp add: handlePtyInput_def wellformed_emit split: option.splits)
next
  case (HandlePtyOutputBufferSize msg)
  assume "wellformed s"
  with HandlePtyOutputBufferSize show ?thesis
    by (simp add: handlePtyOutputBufferSize_def wellformed_emit split: option.splits)
next
  case (HandlePtyResize msg)
  assume "wellformed s"
  with HandlePtyResize show ?thesis
    by (simp add: handlePtyResize_def wellformed_emit split: option.splits)
next
  case (HandlePtyCloseRequest msg)
  assume "wellformed s"
  with HandlePtyCloseRequest show ?thesis
    by (simp add: handlePtyCloseRequest_def wellformed_emit wellformed_closePty
          split: option.splits)
next
  case (Fire p ev)
  assume "wellformed s"
  with Fire show ?thesis by (simp add: wellformed_fire)
qed

lemma wellformed_run: "wellformed s \<Longrightarrow> wellformed (snd (run calls s))"
proof (induction calls arbitrary: s)
  case Nil
  then show ?case by simp
next
  case (Cons Ec calls)
  from Cons.IH [OF wellformed_exec [OF Cons.prems, of "fst Ec" "snd Ec"]]
  show ?case by (auto split: prod.splits)
qed

lemma wellformed_reachable: "wellformed (snd (run calls PtyManager_new))"
  by (rule wellformed_run [OF wellformed_new])

section \<open>Who registers callbacks\<close>

lemma closePty_listeners: "listeners (closePty i s) = listeners s"
  by (simp add: closePty_def Let_def emit_def split: option.splits)

lemma cleanUpPtyWindow_loop_listeners:
  "listeners (snd (cleanUpPtyWindow_loop w ks s)) = listeners s"
  by (induction ks arbitrary: s) (auto simp: closePty_listeners split: option.splits)

lemma call_listener_listeners: "listeners (call_listener E l ev s) = listeners s"
  by (simp add: call_listener_def onData_callback_def onExit_callback_def
        onAvailableWriteBufferSizeChange_callback_def Let_def emit_def
        split: Listener.splits PtyEvent.splits)

lemma fold_listeners_listeners:
  "listeners (fold (\<lambda>l. call_listener E l ev) ls s) = listeners s"
  by (induction ls arbitrary: s) (simp_all add: call_listener_listeners)

lemma fire_listeners: "listeners (fire E p ev s) = listeners s"
  by (simp add: fire_listeners_of fold_listeners_listeners)

lemma createPty_listeners_error:
  "createPty E sender cmd args env cols rows fromPtyId s = (Inl e, s') \<Longrightarrow>
     listeners s' = listeners s"
  by (auto simp add: createPty_def Let_def emit_def
           split: option.splits sum.splits prod.splits if_splits)

text \<open>
  Only a creation that succeeds registers callbacks: every other step leaves the callbacks
  of every Pty as they are.
\<close>

lemma exec_listeners:
  assumes "exec E c s = (None, s')"
  shows "listeners s' = listeners s"
proof (cases c)
  case (CreatePty sender cmd args env cols rows fromPtyId)
  with assms show ?thesis
    by (auto split: prod.splits sum.splits dest: createPty_listeners_error)
next
  case (ClosePty i)
  with assms show ?thesis by (auto simp: closePty_listeners)
next
  case (CleanUpPtyWindow w)
  with assms show ?thesis
    by (auto simp: cleanUpPtyWindow_def cleanUpPtyWindow_loop_listeners)
next
  case (HandlePtyCreate sender msg)
  with assms show ?thesis
    by (auto simp: handlePtyCreate_def split: prod.splits sum.splits Message.splits
             dest: createPty_listeners_error)
next
  case (HandlePtyInput msg)
  with assms show ?thesis
    by (auto simp: handlePtyInput_def emit_def split: option.splits)
next
  case (HandlePtyOutputBufferSize msg)
  with assms show ?thesis
    by (auto simp: handlePtyOutputBufferSize_def emit_def split: option.splits)
next
  case (HandlePtyResize msg)
  with assms show ?thesis
    by (auto simp: handlePtyResize_def emit_def split: option.splits)
next
  case (HandlePtyCloseRequest msg)
  with assms show ?thesis
    by (auto simp: handlePtyCloseRequest_def emit_def closePty_listeners split: option.splits)
next
  case (Fire p ev)
  with assms show ?thesis by (auto simp: fire_listeners)
qed

end
